theory Spec2Isabelle
  imports Main "HOL-Library.Sublist" "HOL-Library.Multiset"
begin

section \<open>Go strings\<close>

text \<open>
  A Go \<^verbatim>\<open>string\<close> and a \<^verbatim>\<open>[]byte\<close> are sequences of bytes; \<^typ>\<open>string\<close> (a list of
  8-bit characters) is the same thing. \<^verbatim>\<open>strings.Contains(s, substr)\<close> reports whether
  \<^verbatim>\<open>substr\<close> occurs in \<^verbatim>\<open>s\<close> as a contiguous run of bytes.
\<close>

fun Contains :: "string \<Rightarrow> string \<Rightarrow> bool" where
  "Contains [] substr = (substr = [])"
| "Contains (c # s) substr = (take (length substr) (c # s) = substr \<or> Contains s substr)"

section \<open>The part of \<^verbatim>\<open>encoding/json\<close> the handler relies on\<close>

text \<open>
  \<^verbatim>\<open>json.Unmarshal\<close> first validates the whole input with the scanner of
  \<^verbatim>\<open>encoding/json/scanner.go\<close> (a byte-at-a-time state machine with a stack of parse
  states) and only then decodes. The machine below follows that scanner state by state and
  builds the value it has read as it goes; the names are the scanner's own.
\<close>

datatype json =
    JNull
  | JBool bool
  | JNumber string
  | JString string
  | JArray "json list"
  | JObject "(string \<times> json) list"

datatype parseState =
    parseObjectKey "(string \<times> json) list"
  | parseObjectValue "(string \<times> json) list" string
  | parseArrayValue "json list"

datatype step =
    stateBeginValue
  | stateBeginValueOrEmpty
  | stateBeginStringOrEmpty
  | stateBeginString
  | stateEndValue json
  | stateInString string
  | stateInStringEsc string
  | stateInStringEscU nat string
  | stateNeg string
  | state1 string
  | state0 string
  | stateDot string
  | stateDot0 string
  | stateE string
  | stateESign string
  | stateE0 string
  | stateLit string json

type_synonym scanner = "step \<times> parseState list"

definition isSpace :: "char \<Rightarrow> bool" where
  "isSpace c = (c = CHR '' '' \<or> c = CHR 0x09 \<or> c = CHR 0x0D \<or> c = CHR 0x0A)"

definition isDigit :: "char \<Rightarrow> bool" where
  "isDigit c = (c \<in> set ''0123456789'')"

definition isHex :: "char \<Rightarrow> bool" where
  "isHex c = (c \<in> set ''0123456789abcdefABCDEF'')"

definition maxNestingDepth :: nat where
  "maxNestingDepth = 10000"

subsection \<open>Unquoting a string literal\<close>

text \<open>
  \<^verbatim>\<open>utf8.DecodeRune\<close> on a byte sequence whose first byte is not ASCII: the number of
  bytes of the well-formed UTF-8 sequence at the head, or \<open>None\<close> where Go reports
  \<^verbatim>\<open>(RuneError, 1)\<close>.
\<close>

definition isCont :: "char \<Rightarrow> bool" where
  "isCont c = (0x80 \<le> (of_char c :: nat) \<and> (of_char c :: nat) \<le> 0xBF)"

definition between :: "nat \<Rightarrow> char \<Rightarrow> nat \<Rightarrow> bool" where
  "between lo c hi = (lo \<le> (of_char c :: nat) \<and> (of_char c :: nat) \<le> hi)"

fun runeLen :: "string \<Rightarrow> nat option" where
  "runeLen [] = None"
| "runeLen [a] = None"
| "runeLen (a # b # rest) =
     (if between 0xC2 a 0xDF then (if isCont b then Some 2 else None)
      else if between 0xE0 a 0xEF then
        (if (if a = CHR 0xE0 then between 0xA0 b 0xBF
             else if a = CHR 0xED then between 0x80 b 0x9F
             else isCont b)
         then (case rest of c # _ \<Rightarrow> if isCont c then Some 3 else None | [] \<Rightarrow> None)
         else None)
      else if between 0xF0 a 0xF4 then
        (if (if a = CHR 0xF0 then between 0x90 b 0xBF
             else if a = CHR 0xF4 then between 0x80 b 0x8F
             else isCont b)
         then (case rest of c # d # _ \<Rightarrow> if isCont c \<and> isCont d then Some 4 else None
               | _ \<Rightarrow> None)
         else None)
      else None)"

text \<open>\<^verbatim>\<open>utf8.EncodeRune\<close>: surrogates and values above U+10FFFF become U+FFFD.\<close>

definition RuneError :: string where
  "RuneError = [CHR 0xEF, CHR 0xBF, CHR 0xBD]"

definition EncodeRune :: "nat \<Rightarrow> string" where
  "EncodeRune r =
     (if r \<le> 0x7F then [char_of r]
      else if r \<le> 0x7FF then [char_of (0xC0 + r div 64), char_of (0x80 + r mod 64)]
      else if r > 0x10FFFF \<or> (0xD800 \<le> r \<and> r \<le> 0xDFFF) then RuneError
      else if r \<le> 0xFFFF then
        [char_of (0xE0 + r div 4096), char_of (0x80 + r div 64 mod 64), char_of (0x80 + r mod 64)]
      else
        [char_of (0xF0 + r div 262144), char_of (0x80 + r div 4096 mod 64),
         char_of (0x80 + r div 64 mod 64), char_of (0x80 + r mod 64)])"

definition hexVal :: "char \<Rightarrow> nat option" where
  "hexVal c =
     (if between 0x30 c 0x39 then Some (of_char c - 0x30)
      else if between 0x61 c 0x66 then Some (of_char c - 0x61 + 10)
      else if between 0x41 c 0x46 then Some (of_char c - 0x41 + 10)
      else None)"

text \<open>\<^verbatim>\<open>getu4\<close>: the value of a leading \<^verbatim>\<open>\uXXXX\<close>, or \<open>None\<close> (Go's \<open>-1\<close>).\<close>

fun getu4 :: "string \<Rightarrow> nat option" where
  "getu4 (bs # u # a # b # c # d # _) =
     (if bs = CHR 0x5C \<and> u = CHR ''u'' then
        (case (hexVal a, hexVal b, hexVal c, hexVal d) of
           (Some x, Some y, Some z, Some w) \<Rightarrow> Some (x * 4096 + y * 256 + z * 16 + w)
         | _ \<Rightarrow> None)
      else None)"
| "getu4 _ = None"

definition IsSurrogate :: "nat \<Rightarrow> bool" where
  "IsSurrogate r = (0xD800 \<le> r \<and> r < 0xE000)"

text \<open>\<^verbatim>\<open>utf16.DecodeRune\<close>; \<open>None\<close> stands for the replacement character.\<close>

definition utf16DecodeRune :: "nat \<Rightarrow> nat option \<Rightarrow> nat option" where
  "utf16DecodeRune r1 r2 =
     (case r2 of
        None \<Rightarrow> None
      | Some r2' \<Rightarrow>
          if 0xD800 \<le> r1 \<and> r1 < 0xDC00 \<and> 0xDC00 \<le> r2' \<and> r2' < 0xE000
          then Some ((r1 - 0xD800) * 1024 + (r2' - 0xDC00) + 0x10000)
          else None)"

definition escapeByte :: "char \<Rightarrow> char option" where
  "escapeByte c =
     (if c = CHR 0x22 \<or> c = CHR 0x5C \<or> c = CHR ''/'' \<or> c = CHR 0x27 then Some c
      else if c = CHR ''b'' then Some (CHR 0x08)
      else if c = CHR ''f'' then Some (CHR 0x0C)
      else if c = CHR ''n'' then Some (CHR 0x0A)
      else if c = CHR ''r'' then Some (CHR 0x0D)
      else if c = CHR ''t'' then Some (CHR 0x09)
      else None)"

text \<open>
  \<^verbatim>\<open>unquoteBytes\<close> on the bytes between the quotes; \<open>None\<close> is Go's \<^verbatim>\<open>ok = false\<close>.
  Go's first loop only looks for a byte that needs work and returns the input unchanged
  when there is none; the second loop, modelled here, gives the same bytes in that case.
  A \<^verbatim>\<open>\uXXXX\<close> escape is six bytes, a surrogate pair twelve.
\<close>

fun unquoteBytes :: "string \<Rightarrow> string option" where
  "unquoteBytes [] = Some []"
| "unquoteBytes (c # s) =
     (if c = CHR 0x5C then
        (case s of
           [] \<Rightarrow> None
         | e # s' \<Rightarrow>
             if e = CHR ''u'' then
               (case getu4 (c # s) of
                  None \<Rightarrow> None
                | Some rr \<Rightarrow>
                    if IsSurrogate rr then
                      (case utf16DecodeRune rr (getu4 (drop 5 s)) of
                         Some dec \<Rightarrow> map_option ((@) (EncodeRune dec)) (unquoteBytes (drop 11 s))
                       | None \<Rightarrow> map_option ((@) RuneError) (unquoteBytes (drop 5 s)))
                    else map_option ((@) (EncodeRune rr)) (unquoteBytes (drop 5 s)))
             else
               (case escapeByte e of
                  None \<Rightarrow> None
                | Some b \<Rightarrow> map_option ((#) b) (unquoteBytes s')))
      else if c = CHR 0x22 \<or> (of_char c :: nat) < 0x20 then None
      else if (of_char c :: nat) < 0x80 then map_option ((#) c) (unquoteBytes s)
      else
        (case runeLen (c # s) of
           None \<Rightarrow> map_option ((@) RuneError) (unquoteBytes s)
         | Some k \<Rightarrow> map_option ((@) (take k (c # s))) (unquoteBytes (drop (k - 1) s))))"

subsection \<open>The scanner\<close>

definition pushParseState :: "parseState \<Rightarrow> step \<Rightarrow> parseState list \<Rightarrow> scanner option" where
  "pushParseState newParseState successState ps =
     (if length (newParseState # ps) \<le> maxNestingDepth
      then Some (successState, newParseState # ps) else None)"

fun endValue :: "json \<Rightarrow> parseState list \<Rightarrow> char \<Rightarrow> scanner option" where
  "endValue v [] c = (if isSpace c then Some (stateEndValue v, []) else None)"
| "endValue v (p # ps) c =
     (if isSpace c then Some (stateEndValue v, p # ps)
      else case p of
        parseObjectKey kvs \<Rightarrow>
          (case v of
             JString k \<Rightarrow>
               if c = CHR '':'' then Some (stateBeginValue, parseObjectValue kvs k # ps) else None
           | _ \<Rightarrow> None)
      | parseObjectValue kvs k \<Rightarrow>
          if c = CHR '','' then Some (stateBeginString, parseObjectKey (kvs @ [(k, v)]) # ps)
          else if c = CHR ''}'' then Some (stateEndValue (JObject (kvs @ [(k, v)])), ps)
          else None
      | parseArrayValue xs \<Rightarrow>
          if c = CHR '','' then Some (stateBeginValue, parseArrayValue (xs @ [v]) # ps)
          else if c = CHR '']'' then Some (stateEndValue (JArray (xs @ [v])), ps)
          else None)"

definition beginValue :: "parseState list \<Rightarrow> char \<Rightarrow> scanner option" where
  "beginValue ps c =
     (if isSpace c then Some (stateBeginValue, ps)
      else if c = CHR ''{'' then pushParseState (parseObjectKey []) stateBeginStringOrEmpty ps
      else if c = CHR ''['' then pushParseState (parseArrayValue []) stateBeginValueOrEmpty ps
      else if c = CHR 0x22 then Some (stateInString [], ps)
      else if c = CHR ''-'' then Some (stateNeg [c], ps)
      else if c = CHR ''0'' then Some (state0 [c], ps)
      else if c = CHR ''t'' then Some (stateLit ''rue'' (JBool True), ps)
      else if c = CHR ''f'' then Some (stateLit ''alse'' (JBool False), ps)
      else if c = CHR ''n'' then Some (stateLit ''ull'' JNull, ps)
      else if isDigit c then Some (state1 [c], ps)
      else None)"

definition beginString :: "parseState list \<Rightarrow> char \<Rightarrow> scanner option" where
  "beginString ps c =
     (if isSpace c then Some (stateBeginString, ps)
      else if c = CHR 0x22 then Some (stateInString [], ps)
      else None)"

definition step0 :: "string \<Rightarrow> parseState list \<Rightarrow> char \<Rightarrow> scanner option" where
  "step0 num ps c =
     (if c = CHR ''.'' then Some (stateDot (num @ [c]), ps)
      else if c = CHR ''e'' \<or> c = CHR ''E'' then Some (stateE (num @ [c]), ps)
      else endValue (JNumber num) ps c)"

definition stepESign :: "string \<Rightarrow> parseState list \<Rightarrow> char \<Rightarrow> scanner option" where
  "stepESign num ps c = (if isDigit c then Some (stateE0 (num @ [c]), ps) else None)"

fun scan_step :: "scanner \<Rightarrow> char \<Rightarrow> scanner option" where
  "scan_step (stateBeginValue, ps) c = beginValue ps c"
| "scan_step (stateBeginValueOrEmpty, ps) c =
     (if isSpace c then Some (stateBeginValueOrEmpty, ps)
      else if c = CHR '']'' then
        (case ps of parseArrayValue xs # ps' \<Rightarrow> Some (stateEndValue (JArray xs), ps') | _ \<Rightarrow> None)
      else beginValue ps c)"
| "scan_step (stateBeginStringOrEmpty, ps) c =
     (if isSpace c then Some (stateBeginStringOrEmpty, ps)
      else if c = CHR ''}'' then
        (case ps of parseObjectKey kvs # ps' \<Rightarrow> Some (stateEndValue (JObject kvs), ps') | _ \<Rightarrow> None)
      else beginString ps c)"
| "scan_step (stateBeginString, ps) c = beginString ps c"
| "scan_step (stateEndValue v, ps) c = endValue v ps c"
| "scan_step (stateInString raw, ps) c =
     (if c = CHR 0x22 then
        (case unquoteBytes raw of Some s \<Rightarrow> Some (stateEndValue (JString s), ps) | None \<Rightarrow> None)
      else if c = CHR 0x5C then Some (stateInStringEsc (raw @ [c]), ps)
      else if (of_char c :: nat) < 0x20 then None
      else Some (stateInString (raw @ [c]), ps))"
| "scan_step (stateInStringEsc raw, ps) c =
     (if c \<in> set ''bfnrt/'' \<or> c = CHR 0x5C \<or> c = CHR 0x22 then Some (stateInString (raw @ [c]), ps)
      else if c = CHR ''u'' then Some (stateInStringEscU 0 (raw @ [c]), ps)
      else None)"
| "scan_step (stateInStringEscU n raw, ps) c =
     (if isHex c then
        (if n < 3 then Some (stateInStringEscU (Suc n) (raw @ [c]), ps)
         else Some (stateInString (raw @ [c]), ps))
      else None)"
| "scan_step (stateNeg num, ps) c =
     (if c = CHR ''0'' then Some (state0 (num @ [c]), ps)
      else if isDigit c then Some (state1 (num @ [c]), ps)
      else None)"
| "scan_step (state1 num, ps) c =
     (if isDigit c then Some (state1 (num @ [c]), ps)
      else step0 num ps c)"
| "scan_step (state0 num, ps) c = step0 num ps c"
| "scan_step (stateDot num, ps) c =
     (if isDigit c then Some (stateDot0 (num @ [c]), ps) else None)"
| "scan_step (stateDot0 num, ps) c =
     (if isDigit c then Some (stateDot0 (num @ [c]), ps)
      else if c = CHR ''e'' \<or> c = CHR ''E'' then Some (stateE (num @ [c]), ps)
      else endValue (JNumber num) ps c)"
| "scan_step (stateE num, ps) c =
     (if c = CHR ''+'' \<or> c = CHR ''-'' then Some (stateESign (num @ [c]), ps)
      else stepESign num ps c)"
| "scan_step (stateESign num, ps) c = stepESign num ps c"
| "scan_step (stateE0 num, ps) c =
     (if isDigit c then Some (stateE0 (num @ [c]), ps)
      else endValue (JNumber num) ps c)"
| "scan_step (stateLit rest v, ps) c =
     (case rest of
        [] \<Rightarrow> None
      | [x] \<Rightarrow> if c = x then Some (stateEndValue v, ps) else None
      | x # xs \<Rightarrow> if c = x then Some (stateLit xs v, ps) else None)"

fun scan_bytes :: "scanner \<Rightarrow> string \<Rightarrow> scanner option" where
  "scan_bytes s [] = Some s"
| "scan_bytes s (c # data) =
     (case scan_step s c of None \<Rightarrow> None | Some s' \<Rightarrow> scan_bytes s' data)"

text \<open>
  \<^verbatim>\<open>scanner.eof\<close> feeds one space to close a number that runs to the end of the input;
  the input is valid when the top-level value is then complete.
\<close>

definition eof :: "scanner \<Rightarrow> json option" where
  "eof s = (case scan_step s (CHR '' '') of Some (stateEndValue v, []) \<Rightarrow> Some v | _ \<Rightarrow> None)"

definition checkValid :: "string \<Rightarrow> json option" where
  "checkValid data =
     (case scan_bytes (stateBeginValue, []) data of None \<Rightarrow> None | Some s \<Rightarrow> eof s)"

subsection \<open>Decoding into the handler's two targets\<close>

text \<open>
  After validation \<^verbatim>\<open>Unmarshal\<close> decodes. A value of the wrong JSON kind is recorded with
  \<^verbatim>\<open>saveError\<close> (the first error wins), decoding goes on, and the saved error is what
  \<^verbatim>\<open>Unmarshal\<close> returns. \<^verbatim>\<open>null\<close> leaves a string untouched and sets a map to nil.
\<close>

datatype json_error = SyntaxError | UnmarshalTypeError string

definition saveError :: "json_error option \<Rightarrow> json_error \<Rightarrow> json_error option" where
  "saveError savedError err = (case savedError of None \<Rightarrow> Some err | Some e \<Rightarrow> Some e)"

text \<open>Storing a JSON value into a Go string that currently holds \<open>cur\<close>.\<close>

fun storeString :: "json \<Rightarrow> string \<times> json_error option \<Rightarrow> string \<times> json_error option" where
  "storeString JNull (cur, e) = (cur, e)"
| "storeString (JString s) (cur, e) = (s, e)"
| "storeString (JBool b) (cur, e) = (cur, saveError e (UnmarshalTypeError ''bool''))"
| "storeString (JNumber n) (cur, e) = (cur, saveError e (UnmarshalTypeError ''number''))"
| "storeString (JArray xs) (cur, e) = (cur, saveError e (UnmarshalTypeError ''array''))"
| "storeString (JObject kvs) (cur, e) = (cur, saveError e (UnmarshalTypeError ''object''))"

text \<open>
  A Go \<^verbatim>\<open>map[string]string\<close> is kept as an association list with one pair per key; a nil
  map and an empty map are both \<open>[]\<close> (the handler only takes \<^verbatim>\<open>len\<close> and ranges over it,
  which does not tell them apart). \<^verbatim>\<open>SetMapIndex\<close> overwrites the value of a key that is
  already there.
\<close>

type_synonym gomap = "(string \<times> string) list"

fun SetMapIndex :: "gomap \<Rightarrow> string \<Rightarrow> string \<Rightarrow> gomap" where
  "SetMapIndex [] k v = [(k, v)]"
| "SetMapIndex ((k', v') # m) k v =
     (if k' = k then (k, v) # m else (k', v') # SetMapIndex m k v)"

fun objectToMap ::
  "(string \<times> json) list \<Rightarrow> gomap \<times> json_error option \<Rightarrow> gomap \<times> json_error option" where
  "objectToMap [] (m, e) = (m, e)"
| "objectToMap ((key, item) # kvs) (m, e) =
     (case storeString item ([], e) of
        (subv, e') \<Rightarrow> objectToMap kvs (SetMapIndex m key subv, e'))"

definition topLevelTypeError :: "json \<Rightarrow> json_error" where
  "topLevelTypeError v =
     UnmarshalTypeError
       (case v of
          JNull \<Rightarrow> ''null'' | JBool b \<Rightarrow> ''bool'' | JNumber n \<Rightarrow> ''number''
        | JString s \<Rightarrow> ''string'' | JArray xs \<Rightarrow> ''array'' | JObject kvs \<Rightarrow> ''object'')"

text \<open>\<^verbatim>\<open>json.Unmarshal([]byte(data), &tagsMap)\<close> with \<^verbatim>\<open>var tagsMap map[string]string\<close>.\<close>

definition UnmarshalMap :: "string \<Rightarrow> gomap \<times> json_error option" where
  "UnmarshalMap data =
     (case checkValid data of
        None \<Rightarrow> ([], Some SyntaxError)
      | Some JNull \<Rightarrow> ([], None)
      | Some (JObject kvs) \<Rightarrow> objectToMap kvs ([], None)
      | Some v \<Rightarrow> ([], Some (topLevelTypeError v)))"

text \<open>
  A key of a JSON object selects a struct field when it is the field's name exactly or when
  \<^verbatim>\<open>foldName\<close> maps both to the same bytes. \<^verbatim>\<open>foldName\<close> turns ASCII letters into upper
  case and every other rune into the smallest rune of its case-folding orbit; the only runes
  outside ASCII whose orbit reaches into ASCII are U+017F (long s, to \<open>S\<close>) and U+212A
  (Kelvin sign, to \<open>K\<close>). \<open>foldASCII\<close> is \<^verbatim>\<open>foldName\<close> where its result is pure ASCII and
  \<open>None\<close> where it is not; that decides every comparison with an ASCII field name.
\<close>

definition toUpperASCII :: "char \<Rightarrow> char" where
  "toUpperASCII c = (if between 0x61 c 0x7A then char_of ((of_char c :: nat) - 0x20) else c)"

fun foldASCII :: "string \<Rightarrow> string option" where
  "foldASCII [] = Some []"
| "foldASCII (c # s) =
     (if (of_char c :: nat) < 0x80 then map_option ((#) (toUpperASCII c)) (foldASCII s)
      else if c = CHR 0xC5 then
        (case s of
           b # s' \<Rightarrow> if b = CHR 0xBF then map_option ((#) (CHR ''S'')) (foldASCII s') else None
         | [] \<Rightarrow> None)
      else if c = CHR 0xE2 then
        (case s of
           b1 # b2 # s' \<Rightarrow>
             if b1 = CHR 0x84 \<and> b2 = CHR 0xAA then map_option ((#) (CHR ''K'')) (foldASCII s')
             else None
         | _ \<Rightarrow> None)
      else None)"

definition fieldMatches :: "string \<Rightarrow> string \<Rightarrow> bool" where
  "fieldMatches name key =
     (key = name \<or> (case foldASCII key of None \<Rightarrow> False | Some f \<Rightarrow> Some f = foldASCII name))"

record EventDetail =
  SourceIdentifier :: string

fun objectToEventDetail ::
  "(string \<times> json) list \<Rightarrow> EventDetail \<times> json_error option \<Rightarrow> EventDetail \<times> json_error option"
  where
  "objectToEventDetail [] (detail, e) = (detail, e)"
| "objectToEventDetail ((key, item) # kvs) (detail, e) =
     (if fieldMatches ''SourceIdentifier'' key then
        (case storeString item (SourceIdentifier detail, e) of
           (subv, e') \<Rightarrow> objectToEventDetail kvs (detail\<lparr>SourceIdentifier := subv\<rparr>, e'))
      else objectToEventDetail kvs (detail, e))"

text \<open>\<^verbatim>\<open>json.Unmarshal(data, &detail)\<close> with \<^verbatim>\<open>var detail EventDetail\<close>.\<close>

definition UnmarshalEventDetail :: "string \<Rightarrow> EventDetail \<times> json_error option" where
  "UnmarshalEventDetail data =
     (case checkValid data of
        None \<Rightarrow> (\<lparr>SourceIdentifier = []\<rparr>, Some SyntaxError)
      | Some JNull \<Rightarrow> (\<lparr>SourceIdentifier = []\<rparr>, None)
      | Some (JObject kvs) \<Rightarrow> objectToEventDetail kvs (\<lparr>SourceIdentifier = []\<rparr>, None)
      | Some v \<Rightarrow> (\<lparr>SourceIdentifier = []\<rparr>, Some (topLevelTypeError v)))"

section \<open>The handler\<close>

subsection \<open>AWS types and the two capability interfaces\<close>

text \<open>
  Pointers of the SDK's structs are options: \<open>None\<close> is \<^verbatim>\<open>nil\<close>. An error returned by a
  capability is opaque to the handler; it is kept as its message.
\<close>

type_synonym aws_error = string

record DBInstance =
  DBClusterIdentifier :: "string option"
  DBInstanceArn :: "string option"

record DescribeDBInstancesOutput =
  DBInstances :: "DBInstance option list"

record GetCallerIdentityOutput =
  Account :: "string option"

record Tag =
  Key :: string
  Value :: string

record AddTagsToResourceInput =
  ResourceName :: string
  Tags :: "Tag list"

record RDSAPI =
  DescribeDBInstances :: "string \<Rightarrow> DescribeDBInstancesOutput option \<times> aws_error option"
  AddTagsToResource :: "AddTagsToResourceInput \<Rightarrow> aws_error option"

record STSAPI =
  GetCallerIdentity :: "GetCallerIdentityOutput option \<times> aws_error option"

record Handler =
  rds :: RDSAPI
  sts :: STSAPI

text \<open>Every call that leaves the handler is recorded, in order, with its input.\<close>

datatype call =
    CallDescribeDBInstances string
  | CallGetCallerIdentity
  | CallAddTagsToResource AddTagsToResourceInput

datatype error =
    EnvRequired
  | JsonError json_error
  | DescribeFailed aws_error
  | NoInstanceFound string
  | NotInCluster string
  | AwsError aws_error

text \<open>
  A Go function either returns or panics (here only on a nil pointer dereference, which the
  real services never provoke but the interfaces allow).
\<close>

datatype 'a completion = Returns 'a | Panics

subsection \<open>\<^verbatim>\<open>getClusterIdentifier\<close>\<close>

definition getClusterIdentifier ::
  "Handler \<Rightarrow> string \<Rightarrow> (string \<times> error option) completion \<times> call list" where
  "getClusterIdentifier h DBInstanceIdentifier =
     (case DescribeDBInstances (rds h) DBInstanceIdentifier of
        (output, Some err) \<Rightarrow> Returns ([], Some (DescribeFailed err))
      | (None, None) \<Rightarrow> Panics
      | (Some output, None) \<Rightarrow>
          (case DBInstances output of
             [] \<Rightarrow> Returns ([], Some (NoInstanceFound DBInstanceIdentifier))
           | None # rest \<Rightarrow> Panics
           | Some dbInstance # rest \<Rightarrow>
               (case (DBClusterIdentifier dbInstance, DBInstanceArn dbInstance) of
                  (Some clusterID, Some arn) \<Rightarrow> Returns (clusterID, None)
                | _ \<Rightarrow> Returns ([], Some (NotInCluster DBInstanceIdentifier)))),
      [CallDescribeDBInstances DBInstanceIdentifier])"

subsection \<open>The process around the handler\<close>

text \<open>
  \<^verbatim>\<open>os.Getenv\<close> gives the empty string for a variable that is not set. The order in which
  \<^verbatim>\<open>range\<close> visits a map is chosen by the Go runtime; the choice is an input of the model
  (\<open>mapOrder\<close>): \<open>rangeMap\<close> picks the next entry by the next number, so every list of numbers
  gives a permutation of the entries.
\<close>

record process =
  environ :: "string \<rightharpoonup> string"
  mapOrder :: "nat list"

definition Getenv :: "process \<Rightarrow> string \<Rightarrow> string" where
  "Getenv p key = (case environ p key of None \<Rightarrow> [] | Some v \<Rightarrow> v)"

fun rangeMap :: "nat list \<Rightarrow> 'a list \<Rightarrow> 'a list" where
  "rangeMap ns [] = []"
| "rangeMap [] (x # xs) = x # xs"
| "rangeMap (n # ns) (x # xs) =
     (let i = n mod length (x # xs)
      in (x # xs) ! i # rangeMap ns (take i (x # xs) @ drop (Suc i) (x # xs)))"

record CloudWatchEvent =
  Detail :: string

subsection \<open>\<^verbatim>\<open>HandleRequest\<close>\<close>

text \<open>
  The result is what \<^verbatim>\<open>HandleRequest\<close> returns (\<open>None\<close> is the nil error) or that it
  panicked, together with the calls it made. The log lines it writes are left out: no
  decision depends on them.
\<close>

definition HandleRequest ::
  "Handler \<Rightarrow> process \<Rightarrow> CloudWatchEvent \<Rightarrow> error option completion \<times> call list" where
  "HandleRequest h p event =
     (let expectedClusterID = Getenv p ''RDS_CLUSTER_IDENTIFIER'' in
      if expectedClusterID = [] then (Returns (Some EnvRequired), [])
      else
        let tagsEnv = Getenv p ''TAGS'' in
        case UnmarshalMap tagsEnv of
          (tagsMap, Some err) \<Rightarrow> (Returns (Some (JsonError err)), [])
        | (tagsMap, None) \<Rightarrow>
            (case UnmarshalEventDetail (Detail event) of
               (detail, Some err) \<Rightarrow> (Returns (Some (JsonError err)), [])
             | (detail, None) \<Rightarrow>
                 let dbInstanceID = SourceIdentifier detail in
                 if \<not> Contains dbInstanceID ''application-autoscaling-'' then (Returns None, [])
                 else
                   (case getClusterIdentifier h dbInstanceID of
                      (Panics, calls) \<Rightarrow> (Panics, calls)
                    | (Returns (clusterID, Some err), calls) \<Rightarrow> (Returns (Some err), calls)
                    | (Returns (clusterID, None), calls) \<Rightarrow>
                        if clusterID \<noteq> expectedClusterID then (Returns None, calls)
                        else
                          (case GetCallerIdentity (sts h) of
                             (callerIdentityOutput, Some err) \<Rightarrow>
                               (Returns (Some (AwsError err)), calls @ [CallGetCallerIdentity])
                           | (None, None) \<Rightarrow> (Panics, calls @ [CallGetCallerIdentity])
                           | (Some callerIdentityOutput, None) \<Rightarrow>
                               let awsTags =
                                     map (\<lambda>(k, v). \<lparr>Key = k, Value = v\<rparr>)
                                       (rangeMap (mapOrder p) tagsMap)
                               in
                               (case Account callerIdentityOutput of
                                  None \<Rightarrow> (Panics, calls @ [CallGetCallerIdentity])
                                | Some account \<Rightarrow>
                                    let arn = ''arn:aws:rds:us-east-1:'' @ account @ '':db:''
                                                @ dbInstanceID;
                                        input = \<lparr>ResourceName = arn, Tags = awsTags\<rparr>
                                    in
                                    (case AddTagsToResource (rds h) input of
                                       Some err \<Rightarrow>
                                         (Returns (Some (AwsError err)),
                                          calls @ [CallGetCallerIdentity,
                                                   CallAddTagsToResource input])
                                     | None \<Rightarrow>
                                         (Returns None,
                                          calls @ [CallGetCallerIdentity,
                                                   CallAddTagsToResource input])))))))"

section \<open>The effect of a tag call\<close>

text \<open>
  Modelled from the spec: the tagging service behind \<^verbatim>\<open>AddTagsToResource\<close> is not part of
  the repository. The spec describes a tag as a key-value label attached to a resource and
  the tag set of a resource as a mapping from key to value, so attaching a tag sets the value
  of its key and leaves the other keys alone. \<open>applyTags\<close> attaches the pairs of one call in
  the order of the list; \<open>effect\<close> is what a call does to the tags of every resource. A
  call that the service refuses would change nothing; \<open>effect\<close> lets every recorded call
  take effect, which is the case that matters for a second delivery.
\<close>

type_synonym tagstate = "string \<rightharpoonup> string"

definition attach :: "Tag \<Rightarrow> tagstate \<Rightarrow> tagstate" where
  "attach t st = st(Key t \<mapsto> Value t)"

definition applyTags :: "tagstate \<Rightarrow> Tag list \<Rightarrow> tagstate" where
  "applyTags st tags = fold attach tags st"

fun effect :: "call \<Rightarrow> (string \<Rightarrow> tagstate) \<Rightarrow> (string \<Rightarrow> tagstate)" where
  "effect (CallAddTagsToResource input) w =
     w(ResourceName input := applyTags (w (ResourceName input)) (Tags input))"
| "effect (CallDescribeDBInstances DBInstanceIdentifier) w = w"
| "effect CallGetCallerIdentity w = w"

section \<open>The fixtures of \<^verbatim>\<open>handler_test.go\<close>\<close>

text \<open>
  \<open>tagsJSON\<close> is \<^verbatim>\<open>json.Marshal(validTags)\<close>, that is
  \<^verbatim>\<open>{"Owner":"professor-farnsworth","Purpose":"delivery-company"}\<close>; \<open>detailFor\<close> builds the
  event details of the test table, \<^verbatim>\<open>{"SourceIdentifier": "..."}\<close>, and \<open>detailWith\<close> the
  same object under another key.
\<close>

definition tagsJSON :: string where
  "tagsJSON =
     [CHR ''{'', CHR 0x22] @ ''Owner'' @ [CHR 0x22, CHR '':'', CHR 0x22]
       @ ''professor-farnsworth'' @ [CHR 0x22, CHR '','', CHR 0x22] @ ''Purpose''
       @ [CHR 0x22, CHR '':'', CHR 0x22] @ ''delivery-company'' @ [CHR 0x22, CHR ''}'']"

definition describes :: "string \<Rightarrow> string \<Rightarrow> string \<Rightarrow> DescribeDBInstancesOutput option \<times> aws_error option"
  where
  "describes cluster arn DBInstanceIdentifier =
     (Some \<lparr>DBInstances = [Some \<lparr>DBClusterIdentifier = Some cluster, DBInstanceArn = Some arn\<rparr>]\<rparr>,
      None)"

definition defaultMockRDS :: RDSAPI where
  "defaultMockRDS =
     \<lparr>DescribeDBInstances =
        describes ''planet-express'' ''arn:aws:rds:us-east-1:123456789012:db:bender'',
      AddTagsToResource = (\<lambda>input. None)\<rparr>"

definition defaultMockSTS :: STSAPI where
  "defaultMockSTS = \<lparr>GetCallerIdentity = (Some \<lparr>Account = Some ''123456789012''\<rparr>, None)\<rparr>"

definition defaultHandler :: Handler where
  "defaultHandler = \<lparr>rds = defaultMockRDS, sts = defaultMockSTS\<rparr>"

definition testProcess :: "string \<Rightarrow> string \<Rightarrow> process" where
  "testProcess cluster tags =
     \<lparr>environ = [''RDS_CLUSTER_IDENTIFIER'' \<mapsto> cluster, ''TAGS'' \<mapsto> tags], mapOrder = []\<rparr>"

definition detailFor :: "string \<Rightarrow> CloudWatchEvent" where
  "detailFor DBInstanceIdentifier =
     \<lparr>Detail = [CHR ''{'', CHR 0x22] @ ''SourceIdentifier'' @ [CHR 0x22, CHR '':'', CHR '' '', CHR 0x22]
                @ DBInstanceIdentifier @ [CHR 0x22, CHR ''}'']\<rparr>"

text \<open>
  The mocks of the test file: a capability whose function is not set answers with an error.
\<close>

definition mockRDS ::
  "(string \<Rightarrow> DescribeDBInstancesOutput option \<times> aws_error option) option \<Rightarrow>
   (AddTagsToResourceInput \<Rightarrow> aws_error option) option \<Rightarrow> RDSAPI" where
  "mockRDS describeDBInstancesFunc addTagsToResourceFunc =
     \<lparr>DescribeDBInstances =
        (case describeDBInstancesFunc of
           Some f \<Rightarrow> f
         | None \<Rightarrow> (\<lambda>input. (None, Some ''DescribeDBInstances not implemented''))),
      AddTagsToResource =
        (case addTagsToResourceFunc of
           Some f \<Rightarrow> f
         | None \<Rightarrow> (\<lambda>input. Some ''AddTagsToResource not implemented''))\<rparr>"

definition mockSTS :: "(GetCallerIdentityOutput option \<times> aws_error option) option \<Rightarrow> STSAPI" where
  "mockSTS getCallerIdentityFunc =
     \<lparr>GetCallerIdentity =
        (case getCallerIdentityFunc of
           Some r \<Rightarrow> r
         | None \<Rightarrow> (None, Some ''GetCallerIdentity not implemented''))\<rparr>"

definition detailWith :: "string \<Rightarrow> string \<Rightarrow> CloudWatchEvent" where
  "detailWith key DBInstanceIdentifier =
     \<lparr>Detail = [CHR ''{'', CHR 0x22] @ key @ [CHR 0x22, CHR '':'', CHR 0x22]
                @ DBInstanceIdentifier @ [CHR 0x22, CHR ''}'']\<rparr>"

section \<open>Facts about the model\<close>

text \<open>\<open>Contains\<close> is the substring relation.\<close>

lemma Contains_iff_sublist: "Contains s substr \<longleftrightarrow> sublist substr s"
proof (induction s)
  case Nil
  show ?case by auto
next
  case (Cons c s)
  have "prefix substr (c # s) \<longleftrightarrow> take (length substr) (c # s) = substr"
    by (metis prefix_def append_eq_conv_conj append_take_drop_id)
  with Cons show ?case by (simp add: sublist_Cons_right)
qed

text \<open>Whatever order the runtime picks, \<^verbatim>\<open>range\<close> visits every entry once.\<close>

lemma mset_rangeMap: "mset (rangeMap ns xs) = mset xs"
proof (induction ns xs rule: rangeMap.induct)
  case (3 n ns x xs)
  let ?ys = "x # xs"
  let ?i = "n mod length ?ys"
  have i: "?i < length ?ys" by simp
  have "mset ?ys = mset (take ?i ?ys @ ?ys ! ?i # drop (Suc ?i) ?ys)"
    using id_take_nth_drop[OF i] by simp
  with 3 show ?case by (simp add: Let_def)
qed simp_all

text \<open>And every order of the entries is the choice of some runtime.\<close>

lemma rangeMap_complete: "mset ys = mset xs \<Longrightarrow> \<exists>ns. rangeMap ns xs = ys"
proof (induction ys arbitrary: xs)
  case Nil
  then show ?case by simp
next
  case (Cons y ys)
  from Cons.prems have "y \<in> set xs"
    by (metis list.set_intros(1) mset_eq_setD)
  then obtain i where i: "i < length xs" and y: "xs ! i = y"
    by (auto simp: in_set_conv_nth)
  let ?rest = "take i xs @ drop (Suc i) xs"
  have "mset xs = mset ?rest + {#y#}"
    using id_take_nth_drop [OF i] y by (metis add_mset_add_single mset.simps(2) mset_append union_mset_add_mset_right)
  with Cons.prems have "mset ys = mset ?rest" by simp
  then obtain ns where ns: "rangeMap ns ?rest = ys"
    using Cons.IH by blast
  obtain x xs' where xs: "xs = x # xs'"
    using i by (cases xs) auto
  have "rangeMap (i # ns) xs = y # ys"
    using i y ns unfolding xs by (simp add: Let_def)
  then show ?case by blast
qed

text \<open>\<^verbatim>\<open>getClusterIdentifier\<close> makes one call, whatever comes back.\<close>

lemma getClusterIdentifier_calls:
  "snd (getClusterIdentifier h DBInstanceIdentifier)
     = [CallDescribeDBInstances DBInstanceIdentifier]"
  by (simp add: getClusterIdentifier_def)

text \<open>The decoded tag map has one pair per key.\<close>

lemma keys_SetMapIndex: "fst ` set (SetMapIndex m k v) = insert k (fst ` set m)"
  by (induction m k v rule: SetMapIndex.induct) auto

lemma distinct_SetMapIndex:
  "distinct (map fst m) \<Longrightarrow> distinct (map fst (SetMapIndex m k v))"
proof (induction m k v rule: SetMapIndex.induct)
  case (1 k v)
  show ?case by simp
next
  case (2 k' v' m k v)
  then show ?case by (auto simp: keys_SetMapIndex)
qed

lemma distinct_objectToMap:
  "distinct (map fst m) \<Longrightarrow> distinct (map fst (fst (objectToMap kvs (m, e))))"
proof (induction kvs arbitrary: m e)
  case Nil
  then show ?case by simp
next
  case (Cons kv kvs)
  obtain key item where kv: "kv = (key, item)" by (cases kv)
  obtain subv e' where st: "storeString item ([], e) = (subv, e')"
    by (cases "storeString item ([], e)")
  from Cons.prems have "distinct (map fst (SetMapIndex m key subv))"
    by (rule distinct_SetMapIndex)
  then show ?case using Cons.IH kv st by simp
qed

lemma distinct_UnmarshalMap: "distinct (map fst (fst (UnmarshalMap data)))"
  by (auto simp: UnmarshalMap_def distinct_objectToMap split: option.splits json.splits)

lemma tag_pairs:
  "map (\<lambda>t. (Key t, Value t)) (map (\<lambda>(k, v). \<lparr>Key = k, Value = v\<rparr>) xs) = xs"
  by (induction xs) auto

lemma tag_keys: "map Key (map (\<lambda>(k, v). \<lparr>Key = k, Value = v\<rparr>) xs) = map fst xs"
  by (induction xs) auto

text \<open>Attaching the tags of a list overrides the state with the list read as a map.\<close>

lemma applyTags_map_add:
  "applyTags st tags = st ++ map_of (rev (map (\<lambda>t. (Key t, Value t)) tags))"
  unfolding applyTags_def
proof (induction tags arbitrary: st)
  case Nil
  show ?case by simp
next
  case (Cons t tags)
  have "fold attach (t # tags) st = fold attach tags (st(Key t \<mapsto> Value t))"
    by (simp add: attach_def)
  also have "\<dots> = st(Key t \<mapsto> Value t) ++ map_of (rev (map (\<lambda>t. (Key t, Value t)) tags))"
    by (rule Cons.IH)
  also have "\<dots> = st ++ map_of (rev (map (\<lambda>t. (Key t, Value t)) (t # tags)))"
    by (rule ext) (simp add: map_add_def split: option.splits)
  finally show ?case .
qed

lemma applyTags_twice: "applyTags (applyTags st tags) tags = applyTags st tags"
  by (rule ext) (simp add: applyTags_map_add map_add_def split: option.splits)

text \<open>
  The tags of a map attached in any order override the state with the map; so what a
  delivery of an event does to the tags of the resources does not depend on the order the
  runtime picks.
\<close>

lemma map_of_rangeMap:
  assumes "distinct (map fst m)"
  shows "map_of (rev (rangeMap ns m)) = map_of m"
proof -
  have entries: "mset (rev (rangeMap ns m)) = mset m"
    by (simp add: mset_rangeMap)
  then have "mset (map fst (rev (rangeMap ns m))) = mset (map fst m)"
    by (metis mset_map)
  with assms have "distinct (map fst (rev (rangeMap ns m)))"
    using mset_eq_imp_distinct_iff by blast
  moreover have "set (rev (rangeMap ns m)) = set m"
    using entries by (rule mset_eq_setD)
  ultimately show ?thesis
    using assms by (simp add: map_of_inject_set)
qed

lemma applyTags_rangeMap:
  assumes "distinct (map fst m)"
  shows "applyTags st (map (\<lambda>(k, v). \<lparr>Key = k, Value = v\<rparr>) (rangeMap ns m)) = st ++ map_of m"
proof -
  have "applyTags st (map (\<lambda>(k, v). \<lparr>Key = k, Value = v\<rparr>) (rangeMap ns m))
          = st ++ map_of (rev (rangeMap ns m))"
    by (simp only: applyTags_map_add tag_pairs)
  then show ?thesis
    by (simp only: map_of_rangeMap [OF assms])
qed

lemma effect_of_delivery:
  "\<exists>r. \<forall>ns w.
     fold effect (snd (HandleRequest h (p\<lparr>mapOrder := ns\<rparr>) event)) w
       = (case r of None \<Rightarrow> w | Some (arn, m) \<Rightarrow> w(arn := w arn ++ m))"
proof -
  let ?expected = "Getenv p ''RDS_CLUSTER_IDENTIFIER''"
  have env: "Getenv (p\<lparr>mapOrder := ns\<rparr>) key = Getenv p key" for ns key
    by (simp add: Getenv_def)
  obtain tagsMap e1 where t: "UnmarshalMap (Getenv p ''TAGS'') = (tagsMap, e1)"
    by (cases "UnmarshalMap (Getenv p ''TAGS'')")
  obtain detail e2 where d: "UnmarshalEventDetail (Detail event) = (detail, e2)"
    by (cases "UnmarshalEventDetail (Detail event)")
  let ?id = "SourceIdentifier detail"
  obtain r where g: "getClusterIdentifier h ?id = (r, [CallDescribeDBInstances ?id])"
    using getClusterIdentifier_calls [of h ?id]
    by (cases "getClusterIdentifier h ?id") simp
  obtain out e3 where i: "GetCallerIdentity (sts h) = (out, e3)"
    by (cases "GetCallerIdentity (sts h)")
  have unique: "distinct (map fst tagsMap)"
    using distinct_UnmarshalMap [of "Getenv p ''TAGS''"] t by simp
  note tagged = applyTags_rangeMap [OF unique]
  show ?thesis
  proof (cases "?expected \<noteq> [] \<and> e1 = None \<and> e2 = None
                  \<and> Contains ?id ''application-autoscaling-''
                  \<and> r = Returns (?expected, None) \<and> e3 = None
                  \<and> (\<exists>identity account. out = Some identity \<and> Account identity = Some account)")
    case True
    then obtain identity account where
      out: "out = Some identity" and account: "Account identity = Some account"
      by blast
    have "\<forall>ns w. fold effect (snd (HandleRequest h (p\<lparr>mapOrder := ns\<rparr>) event)) w
        = (case Some (''arn:aws:rds:us-east-1:'' @ account @ '':db:'' @ ?id, map_of tagsMap) of
             None \<Rightarrow> w | Some (arn, m) \<Rightarrow> w(arn := w arn ++ m))"
      using True t d g i out account
      by (simp add: HandleRequest_def Let_def env tagged split: option.splits)
    then show ?thesis by blast
  next
    case False
    have "\<forall>ns w. fold effect (snd (HandleRequest h (p\<lparr>mapOrder := ns\<rparr>) event)) w
        = (case None :: (string \<times> tagstate) option of
             None \<Rightarrow> w | Some (arn, m) \<Rightarrow> w(arn := w arn ++ m))"
      using False t d g i
      by (auto simp: HandleRequest_def Let_def env
            split: option.splits completion.splits prod.splits)
    then show ?thesis by blast
  qed
qed

text \<open>An object without a key for the field leaves the struct as it was.\<close>

lemma objectToEventDetail_no_match:
  "\<forall>key \<in> fst ` set kvs. \<not> fieldMatches ''SourceIdentifier'' key \<Longrightarrow>
     objectToEventDetail kvs (detail, e) = (detail, e)"
  by (induction kvs) auto

section \<open>The claims\<close>

text \<open>
  Claim C1 (filter correctness). With a valid configuration and a parseable event, an
  instance identifier that does not contain \<^verbatim>\<open>application-autoscaling-\<close> makes
  \<^verbatim>\<open>HandleRequest\<close> return nil without a single call to \<^verbatim>\<open>DescribeDBInstances\<close>,
  \<^verbatim>\<open>GetCallerIdentity\<close> or \<^verbatim>\<open>AddTagsToResource\<close>.
\<close>

theorem filter_correctness:
  assumes cluster: "Getenv p ''RDS_CLUSTER_IDENTIFIER'' \<noteq> []"
    and tags: "snd (UnmarshalMap (Getenv p ''TAGS'')) = None"
    and event: "UnmarshalEventDetail (Detail event) = (detail, None)"
    and name: "\<not> sublist ''application-autoscaling-'' (SourceIdentifier detail)"
  shows "HandleRequest h p event = (Returns None, [])"
proof -
  obtain tagsMap where "UnmarshalMap (Getenv p ''TAGS'') = (tagsMap, None)"
    using tags by (cases "UnmarshalMap (Getenv p ''TAGS'')") auto
  moreover have "\<not> Contains (SourceIdentifier detail) ''application-autoscaling-''"
    using name by (simp add: Contains_iff_sublist)
  ultimately show ?thesis
    using cluster event by (simp add: HandleRequest_def Let_def)
qed

text \<open>The test case \<^verbatim>\<open>non-autoscaling instance\<close> (Nibbler).\<close>

theorem filter_correctness_witness:
  "\<not> sublist ''application-autoscaling-'' ''nibbler'' \<and>
   HandleRequest defaultHandler (testProcess ''planet-express'' tagsJSON) (detailFor ''nibbler'')
     = (Returns None, [])"
proof -
  let ?p = "testProcess ''planet-express'' tagsJSON"
  have a: "Getenv ?p ''RDS_CLUSTER_IDENTIFIER'' \<noteq> []" by code_simp
  have b: "snd (UnmarshalMap (Getenv ?p ''TAGS'')) = None" by code_simp
  have c: "UnmarshalEventDetail (Detail (detailFor ''nibbler''))
             = (\<lparr>SourceIdentifier = ''nibbler''\<rparr>, None)" by code_simp
  have "\<not> Contains ''nibbler'' ''application-autoscaling-''" by code_simp
  then have d: "\<not> sublist ''application-autoscaling-''
                    (SourceIdentifier \<lparr>SourceIdentifier = ''nibbler''\<rparr>)"
    by (simp add: Contains_iff_sublist)
  from filter_correctness [OF a b c d] d show ?thesis by simp
qed

text \<open>
  Claim C2 (membership gating). When the cluster identifier that \<^verbatim>\<open>getClusterIdentifier\<close>
  resolves differs from \<^verbatim>\<open>RDS_CLUSTER_IDENTIFIER\<close>, \<^verbatim>\<open>HandleRequest\<close> returns nil and the
  only call it has made is the \<^verbatim>\<open>DescribeDBInstances\<close> of the lookup: neither
  \<^verbatim>\<open>GetCallerIdentity\<close> nor \<^verbatim>\<open>AddTagsToResource\<close> is called.
\<close>

theorem membership_gating:
  assumes cluster: "Getenv p ''RDS_CLUSTER_IDENTIFIER'' \<noteq> []"
    and tags: "snd (UnmarshalMap (Getenv p ''TAGS'')) = None"
    and event: "UnmarshalEventDetail (Detail event) = (detail, None)"
    and name: "sublist ''application-autoscaling-'' (SourceIdentifier detail)"
    and resolved: "fst (getClusterIdentifier h (SourceIdentifier detail)) = Returns (clusterID, None)"
    and differs: "clusterID \<noteq> Getenv p ''RDS_CLUSTER_IDENTIFIER''"
  shows "HandleRequest h p event
           = (Returns None, [CallDescribeDBInstances (SourceIdentifier detail)])"
proof -
  obtain tagsMap where "UnmarshalMap (Getenv p ''TAGS'') = (tagsMap, None)"
    using tags by (cases "UnmarshalMap (Getenv p ''TAGS'')") auto
  moreover have "Contains (SourceIdentifier detail) ''application-autoscaling-''"
    using name by (simp add: Contains_iff_sublist)
  moreover have "getClusterIdentifier h (SourceIdentifier detail)
      = (Returns (clusterID, None), [CallDescribeDBInstances (SourceIdentifier detail)])"
    using resolved getClusterIdentifier_calls [of h "SourceIdentifier detail"]
    by (cases "getClusterIdentifier h (SourceIdentifier detail)") simp
  ultimately show ?thesis
    using cluster event differs by (simp add: HandleRequest_def Let_def)
qed

text \<open>The test case \<^verbatim>\<open>instance from different cluster\<close> (Mom).\<close>

theorem membership_gating_witness:
  "sublist ''application-autoscaling-'' ''application-autoscaling-mom'' \<and>
   ''momcorp'' \<noteq> ''planet-express'' \<and>
   HandleRequest
     \<lparr>rds = mockRDS (Some (describes ''momcorp'' ''arn:aws:rds:us-east-1:123456789012:db:walt''))
              None,
      sts = defaultMockSTS\<rparr>
     (testProcess ''planet-express'' tagsJSON) (detailFor ''application-autoscaling-mom'')
     = (Returns None, [CallDescribeDBInstances ''application-autoscaling-mom''])"
proof -
  let ?p = "testProcess ''planet-express'' tagsJSON"
  let ?h = "\<lparr>rds = mockRDS (Some (describes ''momcorp''
                        ''arn:aws:rds:us-east-1:123456789012:db:walt'')) None,
             sts = defaultMockSTS\<rparr>"
  let ?d = "\<lparr>SourceIdentifier = ''application-autoscaling-mom''\<rparr>"
  have a: "Getenv ?p ''RDS_CLUSTER_IDENTIFIER'' \<noteq> []" by code_simp
  have b: "snd (UnmarshalMap (Getenv ?p ''TAGS'')) = None" by code_simp
  have c: "UnmarshalEventDetail (Detail (detailFor ''application-autoscaling-mom'')) = (?d, None)"
    by code_simp
  have "Contains ''application-autoscaling-mom'' ''application-autoscaling-''" by code_simp
  then have d: "sublist ''application-autoscaling-'' (SourceIdentifier ?d)"
    by (simp add: Contains_iff_sublist)
  have e: "fst (getClusterIdentifier ?h (SourceIdentifier ?d)) = Returns (''momcorp'', None)"
    by code_simp
  have f: "''momcorp'' \<noteq> Getenv ?p ''RDS_CLUSTER_IDENTIFIER''" by code_simp
  from membership_gating [OF a b c d e f] d show ?thesis by simp
qed

text \<open>
  Claim C3 (fail-fast ordering). When \<^verbatim>\<open>RDS_CLUSTER_IDENTIFIER\<close> is absent or empty, or
  \<^verbatim>\<open>TAGS\<close> does not unmarshal into a \<^verbatim>\<open>map[string]string\<close>, \<^verbatim>\<open>HandleRequest\<close> returns an
  error and has called none of the three capabilities.
\<close>

theorem fail_fast_ordering:
  assumes "environ p ''RDS_CLUSTER_IDENTIFIER'' = None
           \<or> environ p ''RDS_CLUSTER_IDENTIFIER'' = Some []
           \<or> snd (UnmarshalMap (Getenv p ''TAGS'')) \<noteq> None"
  shows "\<exists>err. HandleRequest h p event = (Returns (Some err), [])"
proof (cases "Getenv p ''RDS_CLUSTER_IDENTIFIER'' = []")
  case True
  then show ?thesis by (simp add: HandleRequest_def)
next
  case False
  with assms have "snd (UnmarshalMap (Getenv p ''TAGS'')) \<noteq> None"
    by (auto simp: Getenv_def)
  then obtain tagsMap err where "UnmarshalMap (Getenv p ''TAGS'') = (tagsMap, Some err)"
    by (cases "UnmarshalMap (Getenv p ''TAGS'')") auto
  with False show ?thesis by (simp add: HandleRequest_def Let_def)
qed

text \<open>
  The test cases \<^verbatim>\<open>missing environment variables\<close>, \<^verbatim>\<open>missing RDS_CLUSTER_IDENTIFIER\<close> and
  \<^verbatim>\<open>autoscaling instance with invalid tags JSON\<close>.
\<close>

theorem fail_fast_ordering_witness:
  "environ \<lparr>environ = Map.empty, mapOrder = []\<rparr> ''RDS_CLUSTER_IDENTIFIER'' = None \<and>
   HandleRequest defaultHandler \<lparr>environ = Map.empty, mapOrder = []\<rparr>
       (detailFor ''application-autoscaling-zoidberg'') = (Returns (Some EnvRequired), []) \<and>
   environ (testProcess [] tagsJSON) ''RDS_CLUSTER_IDENTIFIER'' = Some [] \<and>
   HandleRequest defaultHandler (testProcess [] tagsJSON)
       (detailFor ''application-autoscaling-amy'') = (Returns (Some EnvRequired), []) \<and>
   snd (UnmarshalMap (Getenv (testProcess ''planet-express'' ''invalid json'') ''TAGS''))
       = Some SyntaxError \<and>
   HandleRequest defaultHandler (testProcess ''planet-express'' ''invalid json'')
       (detailFor ''application-autoscaling-leela'') = (Returns (Some (JsonError SyntaxError)), [])"
proof -
  let ?p1 = "\<lparr>environ = Map.empty, mapOrder = []\<rparr>"
  let ?p2 = "testProcess [] tagsJSON"
  let ?p3 = "testProcess ''planet-express'' ''invalid json''"
  have a: "environ ?p1 ''RDS_CLUSTER_IDENTIFIER'' = None" by simp
  have b: "environ ?p2 ''RDS_CLUSTER_IDENTIFIER'' = Some []" by (simp add: testProcess_def)
  have c: "snd (UnmarshalMap (Getenv ?p3 ''TAGS'')) = Some SyntaxError" by code_simp
  have a': "HandleRequest defaultHandler ?p1 (detailFor ''application-autoscaling-zoidberg'')
              = (Returns (Some EnvRequired), [])"
    using fail_fast_ordering [of ?p1 defaultHandler "detailFor ''application-autoscaling-zoidberg''"] a
    by (simp add: HandleRequest_def Getenv_def)
  have b': "HandleRequest defaultHandler ?p2 (detailFor ''application-autoscaling-amy'')
              = (Returns (Some EnvRequired), [])"
    using fail_fast_ordering [of ?p2 defaultHandler "detailFor ''application-autoscaling-amy''"] b
    by (simp add: HandleRequest_def Getenv_def)
  have "\<exists>err. HandleRequest defaultHandler ?p3 (detailFor ''application-autoscaling-leela'')
              = (Returns (Some err), [])"
    using fail_fast_ordering [of ?p3 defaultHandler "detailFor ''application-autoscaling-leela''"] c
    by simp
  moreover have "HandleRequest defaultHandler ?p3 (detailFor ''application-autoscaling-leela'')
              = (Returns (Some (JsonError SyntaxError)), [])"
    by code_simp
  ultimately show ?thesis using a b c a' b' by simp
qed




text \<open>
  Claim C5 (resource name and tag set). When every step up to the tag call succeeds,
  \<^verbatim>\<open>AddTagsToResource\<close> is called once, last, with the resource name
  \<^verbatim>\<open>arn:aws:rds:us-east-1:<accountId>:db:<instanceIdentifier>\<close> (the account of
  \<^verbatim>\<open>GetCallerIdentity\<close>, the identifier of the event) and with a tag list that holds exactly
  the entries of the parsed \<^verbatim>\<open>TAGS\<close> map, one pair per key, in whatever order the runtime
  ranges over the map; the handler returns what that call returns.
\<close>

theorem tag_application:
  assumes cluster: "Getenv p ''RDS_CLUSTER_IDENTIFIER'' \<noteq> []"
    and tags: "UnmarshalMap (Getenv p ''TAGS'') = (tagsMap, None)"
    and event: "UnmarshalEventDetail (Detail event) = (detail, None)"
    and name: "sublist ''application-autoscaling-'' (SourceIdentifier detail)"
    and member: "fst (getClusterIdentifier h (SourceIdentifier detail))
                   = Returns (Getenv p ''RDS_CLUSTER_IDENTIFIER'', None)"
    and identity: "GetCallerIdentity (sts h) = (Some \<lparr>Account = Some accountId\<rparr>, None)"
  shows "\<exists>awsTags.
           HandleRequest h p event
             = (Returns (map_option AwsError
                  (AddTagsToResource (rds h)
                     \<lparr>ResourceName = ''arn:aws:rds:us-east-1:'' @ accountId @ '':db:''
                                       @ SourceIdentifier detail,
                      Tags = awsTags\<rparr>)),
                [CallDescribeDBInstances (SourceIdentifier detail), CallGetCallerIdentity,
                 CallAddTagsToResource
                   \<lparr>ResourceName = ''arn:aws:rds:us-east-1:'' @ accountId @ '':db:''
                                     @ SourceIdentifier detail,
                    Tags = awsTags\<rparr>])
         \<and> mset (map (\<lambda>t. (Key t, Value t)) awsTags) = mset tagsMap
         \<and> distinct (map Key awsTags)"
proof -
  let ?id = "SourceIdentifier detail"
  let ?order = "rangeMap (mapOrder p) tagsMap"
  let ?awsTags = "map (\<lambda>(k, v). \<lparr>Key = k, Value = v\<rparr>) ?order"
  have contains: "Contains ?id ''application-autoscaling-''"
    using name by (simp add: Contains_iff_sublist)
  have resolved: "getClusterIdentifier h ?id
      = (Returns (Getenv p ''RDS_CLUSTER_IDENTIFIER'', None), [CallDescribeDBInstances ?id])"
    using member getClusterIdentifier_calls [of h ?id]
    by (cases "getClusterIdentifier h ?id") simp
  have run: "HandleRequest h p event
      = (Returns (map_option AwsError
           (AddTagsToResource (rds h)
              \<lparr>ResourceName = ''arn:aws:rds:us-east-1:'' @ accountId @ '':db:'' @ ?id,
               Tags = ?awsTags\<rparr>)),
         [CallDescribeDBInstances ?id, CallGetCallerIdentity,
          CallAddTagsToResource
            \<lparr>ResourceName = ''arn:aws:rds:us-east-1:'' @ accountId @ '':db:'' @ ?id,
             Tags = ?awsTags\<rparr>])"
    using cluster tags event contains resolved identity
    by (simp add: HandleRequest_def Let_def split: option.splits)
  have pairs: "map (\<lambda>t. (Key t, Value t)) ?awsTags = ?order"
    by (rule tag_pairs)
  have keys: "map Key ?awsTags = map fst ?order"
    by (rule tag_keys)
  have entries: "mset ?order = mset tagsMap"
    by (rule mset_rangeMap)
  have "distinct (map fst tagsMap)"
    using distinct_UnmarshalMap [of "Getenv p ''TAGS''"] tags by simp
  moreover have "mset (map fst ?order) = mset (map fst tagsMap)"
    by (simp add: entries)
  ultimately have unique: "distinct (map fst ?order)"
    using mset_eq_imp_distinct_iff by blast
  show ?thesis
  proof (intro exI conjI)
    show "HandleRequest h p event
      = (Returns (map_option AwsError
           (AddTagsToResource (rds h)
              \<lparr>ResourceName = ''arn:aws:rds:us-east-1:'' @ accountId @ '':db:'' @ ?id,
               Tags = ?awsTags\<rparr>)),
         [CallDescribeDBInstances ?id, CallGetCallerIdentity,
          CallAddTagsToResource
            \<lparr>ResourceName = ''arn:aws:rds:us-east-1:'' @ accountId @ '':db:'' @ ?id,
             Tags = ?awsTags\<rparr>])"
      by (rule run)
    show "mset (map (\<lambda>t. (Key t, Value t)) ?awsTags) = mset tagsMap"
      by (simp only: pairs entries)
    show "distinct (map Key ?awsTags)"
      by (simp only: keys unique)
  qed
qed


text \<open>
  The test case \<^verbatim>\<open>autoscaling instance with valid cluster\<close> (Fry), with a runtime that
  visits \<^verbatim>\<open>Purpose\<close> before \<^verbatim>\<open>Owner\<close>.
\<close>

theorem tag_application_witness:
  "(\<exists>awsTags.
      HandleRequest defaultHandler ((testProcess ''planet-express'' tagsJSON)\<lparr>mapOrder := [1]\<rparr>)
          (detailFor ''application-autoscaling-fry'')
        = (Returns (map_option AwsError
             (AddTagsToResource (rds defaultHandler)
                \<lparr>ResourceName = ''arn:aws:rds:us-east-1:123456789012:db:application-autoscaling-fry'',
                 Tags = awsTags\<rparr>)),
           [CallDescribeDBInstances ''application-autoscaling-fry'', CallGetCallerIdentity,
            CallAddTagsToResource
              \<lparr>ResourceName = ''arn:aws:rds:us-east-1:123456789012:db:application-autoscaling-fry'',
               Tags = awsTags\<rparr>])
      \<and> mset (map (\<lambda>t. (Key t, Value t)) awsTags)
          = mset [(''Owner'', ''professor-farnsworth''), (''Purpose'', ''delivery-company'')]
      \<and> distinct (map Key awsTags))
   \<and> HandleRequest defaultHandler ((testProcess ''planet-express'' tagsJSON)\<lparr>mapOrder := [1]\<rparr>)
          (detailFor ''application-autoscaling-fry'')
        = (Returns None,
           [CallDescribeDBInstances ''application-autoscaling-fry'', CallGetCallerIdentity,
            CallAddTagsToResource
              \<lparr>ResourceName = ''arn:aws:rds:us-east-1:123456789012:db:application-autoscaling-fry'',
               Tags = [\<lparr>Key = ''Purpose'', Value = ''delivery-company''\<rparr>,
                       \<lparr>Key = ''Owner'', Value = ''professor-farnsworth''\<rparr>]\<rparr>])"
proof -
  let ?p = "(testProcess ''planet-express'' tagsJSON)\<lparr>mapOrder := [1]\<rparr>"
  let ?d = "\<lparr>SourceIdentifier = ''application-autoscaling-fry''\<rparr>"
  have cluster: "Getenv ?p ''RDS_CLUSTER_IDENTIFIER'' \<noteq> []" by code_simp
  have expected: "Getenv ?p ''RDS_CLUSTER_IDENTIFIER'' = ''planet-express''" by code_simp
  have tags: "UnmarshalMap (Getenv ?p ''TAGS'')
      = ([(''Owner'', ''professor-farnsworth''), (''Purpose'', ''delivery-company'')], None)"
    by code_simp
  have event: "UnmarshalEventDetail (Detail (detailFor ''application-autoscaling-fry'')) = (?d, None)"
    by code_simp
  have "Contains ''application-autoscaling-fry'' ''application-autoscaling-''" by code_simp
  then have name: "sublist ''application-autoscaling-'' (SourceIdentifier ?d)"
    by (simp add: Contains_iff_sublist)
  have member: "fst (getClusterIdentifier defaultHandler (SourceIdentifier ?d))
      = Returns (Getenv ?p ''RDS_CLUSTER_IDENTIFIER'', None)"
    unfolding expected by code_simp
  have identity: "GetCallerIdentity (sts defaultHandler)
      = (Some \<lparr>Account = Some ''123456789012''\<rparr>, None)"
    by (simp add: defaultHandler_def defaultMockSTS_def)
  have run: "HandleRequest defaultHandler ?p (detailFor ''application-autoscaling-fry'')
      = (Returns None,
         [CallDescribeDBInstances ''application-autoscaling-fry'', CallGetCallerIdentity,
          CallAddTagsToResource
            \<lparr>ResourceName = ''arn:aws:rds:us-east-1:123456789012:db:application-autoscaling-fry'',
             Tags = [\<lparr>Key = ''Purpose'', Value = ''delivery-company''\<rparr>,
                     \<lparr>Key = ''Owner'', Value = ''professor-farnsworth''\<rparr>]\<rparr>])"
    by code_simp
  from tag_application [OF cluster tags event name member identity] run
  show ?thesis by simp
qed

text \<open>
  Claim C6 (resolver errors). Whatever the instance identifier, \<^verbatim>\<open>getClusterIdentifier\<close>
  returns an error, and the empty string as cluster identifier, when the describe call comes
  back with no instance, and when the first instance it comes back with lacks
  \<^verbatim>\<open>DBClusterIdentifier\<close> or \<^verbatim>\<open>DBInstanceArn\<close>.
\<close>

theorem resolver_errors:
  assumes "fst (DescribeDBInstances (rds h) DBInstanceIdentifier) = Some output"
    and "DBInstances output = []
         \<or> (\<exists>dbInstance rest. DBInstances output = Some dbInstance # rest
               \<and> (DBClusterIdentifier dbInstance = None \<or> DBInstanceArn dbInstance = None))"
  shows "\<exists>err. fst (getClusterIdentifier h DBInstanceIdentifier) = Returns ([], Some err)"
proof -
  obtain e where d: "DescribeDBInstances (rds h) DBInstanceIdentifier = (Some output, e)"
    using assms(1) by (cases "DescribeDBInstances (rds h) DBInstanceIdentifier") simp
  show ?thesis
  proof (cases e)
    case (Some err)
    with d show ?thesis by (simp add: getClusterIdentifier_def)
  next
    case None
    from assms(2) show ?thesis
    proof
      assume "DBInstances output = []"
      with d None show ?thesis by (simp add: getClusterIdentifier_def)
    next
      assume "\<exists>dbInstance rest. DBInstances output = Some dbInstance # rest
               \<and> (DBClusterIdentifier dbInstance = None \<or> DBInstanceArn dbInstance = None)"
      then obtain dbInstance rest where
        first: "DBInstances output = Some dbInstance # rest"
        and missing: "DBClusterIdentifier dbInstance = None \<or> DBInstanceArn dbInstance = None"
        by blast
      from missing d None first show ?thesis
        by (auto simp: getClusterIdentifier_def split: option.splits)
    qed
  qed
qed

text \<open>
  The test cases \<^verbatim>\<open>empty response\<close> and \<^verbatim>\<open>instance not in cluster\<close> of
  \<^verbatim>\<open>TestHandler_getClusterIdentifier\<close>, and an instance without ARN.
\<close>

theorem resolver_errors_witness:
  "getClusterIdentifier
     \<lparr>rds = mockRDS (Some (\<lambda>input. (Some \<lparr>DBInstances = []\<rparr>, None))) None, sts = mockSTS None\<rparr>
     ''empty-response''
     = (Returns ([], Some (NoInstanceFound ''empty-response'')),
        [CallDescribeDBInstances ''empty-response''])
   \<and> getClusterIdentifier
     \<lparr>rds = mockRDS
              (Some (\<lambda>input. (Some \<lparr>DBInstances =
                  [Some \<lparr>DBClusterIdentifier = None, DBInstanceArn = Some ''test-arn''\<rparr>]\<rparr>, None)))
              None,
      sts = mockSTS None\<rparr>
     ''standalone-instance''
     = (Returns ([], Some (NotInCluster ''standalone-instance'')),
        [CallDescribeDBInstances ''standalone-instance''])
   \<and> getClusterIdentifier
     \<lparr>rds = mockRDS
              (Some (\<lambda>input. (Some \<lparr>DBInstances =
                  [Some \<lparr>DBClusterIdentifier = Some ''test-cluster'', DBInstanceArn = None\<rparr>]\<rparr>, None)))
              None,
      sts = mockSTS None\<rparr>
     ''no-arn''
     = (Returns ([], Some (NotInCluster ''no-arn'')), [CallDescribeDBInstances ''no-arn''])"
proof -
  let ?h1 = "\<lparr>rds = mockRDS (Some (\<lambda>input. (Some \<lparr>DBInstances = []\<rparr>, None))) None,
              sts = mockSTS None\<rparr>"
  let ?i2 = "\<lparr>DBClusterIdentifier = None, DBInstanceArn = Some ''test-arn''\<rparr>"
  let ?h2 = "\<lparr>rds = mockRDS (Some (\<lambda>input. (Some \<lparr>DBInstances = [Some ?i2]\<rparr>, None))) None,
              sts = mockSTS None\<rparr>"
  let ?i3 = "\<lparr>DBClusterIdentifier = Some ''test-cluster'', DBInstanceArn = None\<rparr>"
  let ?h3 = "\<lparr>rds = mockRDS (Some (\<lambda>input. (Some \<lparr>DBInstances = [Some ?i3]\<rparr>, None))) None,
              sts = mockSTS None\<rparr>"
  have a1: "fst (DescribeDBInstances (rds ?h1) ''empty-response'') = Some \<lparr>DBInstances = []\<rparr>"
    by (simp add: mockRDS_def)
  have b1: "DBInstances \<lparr>DBInstances = []\<rparr> = []
         \<or> (\<exists>dbInstance rest. DBInstances \<lparr>DBInstances = []\<rparr> = Some dbInstance # rest
               \<and> (DBClusterIdentifier dbInstance = None \<or> DBInstanceArn dbInstance = None))"
    by simp
  have a2: "fst (DescribeDBInstances (rds ?h2) ''standalone-instance'')
              = Some \<lparr>DBInstances = [Some ?i2]\<rparr>"
    by (simp add: mockRDS_def)
  have b2: "DBInstances \<lparr>DBInstances = [Some ?i2]\<rparr> = []
         \<or> (\<exists>dbInstance rest. DBInstances \<lparr>DBInstances = [Some ?i2]\<rparr> = Some dbInstance # rest
               \<and> (DBClusterIdentifier dbInstance = None \<or> DBInstanceArn dbInstance = None))"
    by simp
  have a3: "fst (DescribeDBInstances (rds ?h3) ''no-arn'') = Some \<lparr>DBInstances = [Some ?i3]\<rparr>"
    by (simp add: mockRDS_def)
  have b3: "DBInstances \<lparr>DBInstances = [Some ?i3]\<rparr> = []
         \<or> (\<exists>dbInstance rest. DBInstances \<lparr>DBInstances = [Some ?i3]\<rparr> = Some dbInstance # rest
               \<and> (DBClusterIdentifier dbInstance = None \<or> DBInstanceArn dbInstance = None))"
    by simp
  have r1: "getClusterIdentifier ?h1 ''empty-response''
      = (Returns ([], Some (NoInstanceFound ''empty-response'')),
         [CallDescribeDBInstances ''empty-response''])"
    using resolver_errors [OF a1 b1] by (simp add: getClusterIdentifier_def mockRDS_def)
  have r2: "getClusterIdentifier ?h2 ''standalone-instance''
      = (Returns ([], Some (NotInCluster ''standalone-instance'')),
         [CallDescribeDBInstances ''standalone-instance''])"
    using resolver_errors [OF a2 b2] by (simp add: getClusterIdentifier_def mockRDS_def)
  have r3: "getClusterIdentifier ?h3 ''no-arn''
      = (Returns ([], Some (NotInCluster ''no-arn'')), [CallDescribeDBInstances ''no-arn''])"
    using resolver_errors [OF a3 b3] by (simp add: getClusterIdentifier_def mockRDS_def)
  from r1 r2 r3 show ?thesis by simp
qed

text \<open>
  Claim C7 (result of the resolver), as amended. On success \<^verbatim>\<open>getClusterIdentifier\<close>
  returns the cluster identifier of the first instance described, and only that: the
  instance must carry a resource name (\<^verbatim>\<open>DBInstanceArn\<close>) for the lookup to succeed, but
  the resource name is not part of the result.
\<close>

theorem resolver_result:
  assumes "DescribeDBInstances (rds h) DBInstanceIdentifier = (Some output, None)"
    and "DBInstances output = Some dbInstance # rest"
    and "DBClusterIdentifier dbInstance = Some clusterID"
    and "DBInstanceArn dbInstance = Some arn"
  shows "getClusterIdentifier h DBInstanceIdentifier
           = (Returns (clusterID, None), [CallDescribeDBInstances DBInstanceIdentifier])"
  using assms by (simp add: getClusterIdentifier_def)

text \<open>The test case \<^verbatim>\<open>valid instance ID\<close>.\<close>

theorem resolver_result_witness:
  "getClusterIdentifier
     \<lparr>rds = mockRDS (Some (describes ''test-cluster'' ''test-arn'')) None, sts = mockSTS None\<rparr>
     ''test-instance''
     = (Returns (''test-cluster'', None), [CallDescribeDBInstances ''test-instance''])"
proof -
  let ?h = "\<lparr>rds = mockRDS (Some (describes ''test-cluster'' ''test-arn'')) None,
             sts = mockSTS None\<rparr>"
  let ?i = "\<lparr>DBClusterIdentifier = Some ''test-cluster'', DBInstanceArn = Some ''test-arn''\<rparr>"
  have a: "DescribeDBInstances (rds ?h) ''test-instance'' = (Some \<lparr>DBInstances = [Some ?i]\<rparr>, None)"
    by (simp add: mockRDS_def describes_def)
  have b: "DBInstances \<lparr>DBInstances = [Some ?i]\<rparr> = Some ?i # []" by simp
  have c: "DBClusterIdentifier ?i = Some ''test-cluster''" by simp
  have d: "DBInstanceArn ?i = Some ''test-arn''" by simp
  from resolver_result [OF a b c d] show ?thesis .
qed

text \<open>
  The claim as stated has the resolver return the pair of cluster identifier and resource
  name. The result is a cluster identifier and an error: two instances of the same cluster
  with different resource names give the same result.
\<close>

theorem resolver_result_counterexample:
  "getClusterIdentifier
     \<lparr>rds = mockRDS (Some (describes ''test-cluster'' ''test-arn'')) None, sts = mockSTS None\<rparr>
     ''test-instance''
     = (Returns (''test-cluster'', None), [CallDescribeDBInstances ''test-instance''])
   \<and> getClusterIdentifier
     \<lparr>rds = mockRDS (Some (describes ''test-cluster'' ''another-arn'')) None, sts = mockSTS None\<rparr>
     ''test-instance''
     = (Returns (''test-cluster'', None), [CallDescribeDBInstances ''test-instance''])
   \<and> ''test-arn'' \<noteq> ''another-arn''"
  by (simp add: getClusterIdentifier_def mockRDS_def describes_def)

text \<open>
  Claim C8 (idempotence). Applying a tag list to a tag state twice leaves the state that
  applying it once leaves, for every state and every list; and delivering the same event to
  the handler a second time, whatever order the runtime then ranges over the tag map in,
  leaves the tags of every resource as the first delivery left them.
\<close>

theorem tag_idempotence:
  "applyTags (applyTags st tags) tags = applyTags st tags
   \<and> fold effect (snd (HandleRequest h (p\<lparr>mapOrder := ns\<rparr>) event))
         (fold effect (snd (HandleRequest h p event)) w)
       = fold effect (snd (HandleRequest h p event)) w"
proof
  show "applyTags (applyTags st tags) tags = applyTags st tags"
    by (rule applyTags_twice)
  obtain r where r: "\<And>ns w. fold effect (snd (HandleRequest h (p\<lparr>mapOrder := ns\<rparr>) event)) w
       = (case r of None \<Rightarrow> w | Some (arn, m) \<Rightarrow> w(arn := w arn ++ m))"
    using effect_of_delivery [of h p event] by blast
  have first: "fold effect (snd (HandleRequest h p event)) w
       = (case r of None \<Rightarrow> w | Some (arn, m) \<Rightarrow> w(arn := w arn ++ m))" for w
    using r [of "mapOrder p" w] by simp
  show "fold effect (snd (HandleRequest h (p\<lparr>mapOrder := ns\<rparr>) event))
         (fold effect (snd (HandleRequest h p event)) w)
       = fold effect (snd (HandleRequest h p event)) w"
    unfolding r first by (cases r) (auto simp: map_add_def fun_eq_iff split: option.splits)
qed

text \<open>
  The happy path delivered twice, the second time with \<^verbatim>\<open>Purpose\<close> visited before
  \<^verbatim>\<open>Owner\<close>, to an instance that carried another \<^verbatim>\<open>Owner\<close> tag.
\<close>

theorem tag_idempotence_witness:
  "fold effect
     (snd (HandleRequest defaultHandler
             ((testProcess ''planet-express'' tagsJSON)\<lparr>mapOrder := [1]\<rparr>)
             (detailFor ''application-autoscaling-fry'')))
     (fold effect
        (snd (HandleRequest defaultHandler (testProcess ''planet-express'' tagsJSON)
                (detailFor ''application-autoscaling-fry'')))
        (\<lambda>resource. [''Owner'' \<mapsto> ''zapp-brannigan'']))
     ''arn:aws:rds:us-east-1:123456789012:db:application-autoscaling-fry''
   = [''Owner'' \<mapsto> ''professor-farnsworth'', ''Purpose'' \<mapsto> ''delivery-company'']"
proof -
  let ?calls = "snd (HandleRequest defaultHandler (testProcess ''planet-express'' tagsJSON)
                       (detailFor ''application-autoscaling-fry''))"
  have calls: "?calls
      = [CallDescribeDBInstances ''application-autoscaling-fry'', CallGetCallerIdentity,
         CallAddTagsToResource
           \<lparr>ResourceName = ''arn:aws:rds:us-east-1:123456789012:db:application-autoscaling-fry'',
            Tags = [\<lparr>Key = ''Owner'', Value = ''professor-farnsworth''\<rparr>,
                    \<lparr>Key = ''Purpose'', Value = ''delivery-company''\<rparr>]\<rparr>]"
    by code_simp
  have once: "fold effect ?calls (\<lambda>resource. [''Owner'' \<mapsto> ''zapp-brannigan''])
      ''arn:aws:rds:us-east-1:123456789012:db:application-autoscaling-fry''
    = [''Owner'' \<mapsto> ''professor-farnsworth'', ''Purpose'' \<mapsto> ''delivery-company'']"
    unfolding calls by (simp add: applyTags_def attach_def)
  from tag_idempotence [where h = defaultHandler
      and p = "testProcess ''planet-express'' tagsJSON" and ns = "[1]"
      and event = "detailFor ''application-autoscaling-fry''"
      and w = "\<lambda>resource. [''Owner'' \<mapsto> ''zapp-brannigan'']", THEN conjunct2]
    once
  show ?thesis by simp
qed

text \<open>
  Claim C9 (event without identifier), as amended. With a valid configuration, an event
  whose detail is the JSON \<^verbatim>\<open>null\<close> or a JSON object none of whose keys selects the field
  \<^verbatim>\<open>SourceIdentifier\<close> (keys are matched exactly or, failing that, without regard to case)
  is not a parsing error: the identifier is the empty string, the filter rejects it, and
  \<^verbatim>\<open>HandleRequest\<close> returns nil without a call.
\<close>

theorem missing_identifier_skips:
  assumes cluster: "Getenv p ''RDS_CLUSTER_IDENTIFIER'' \<noteq> []"
    and tags: "snd (UnmarshalMap (Getenv p ''TAGS'')) = None"
    and detail: "checkValid (Detail event) = Some JNull
                 \<or> (\<exists>kvs. checkValid (Detail event) = Some (JObject kvs)
                      \<and> (\<forall>key \<in> fst ` set kvs. \<not> fieldMatches ''SourceIdentifier'' key))"
  shows "UnmarshalEventDetail (Detail event) = (\<lparr>SourceIdentifier = []\<rparr>, None)
         \<and> HandleRequest h p event = (Returns None, [])"
proof -
  have parsed: "UnmarshalEventDetail (Detail event) = (\<lparr>SourceIdentifier = []\<rparr>, None)"
    using detail by (auto simp: UnmarshalEventDetail_def objectToEventDetail_no_match)
  obtain tagsMap where "UnmarshalMap (Getenv p ''TAGS'') = (tagsMap, None)"
    using tags by (cases "UnmarshalMap (Getenv p ''TAGS'')") auto
  with cluster parsed have "HandleRequest h p event = (Returns None, [])"
    by (simp add: HandleRequest_def Let_def)
  with parsed show ?thesis by simp
qed

text \<open>The details \<^verbatim>\<open>{}\<close>, \<^verbatim>\<open>{"SourceType":"DB_INSTANCE"}\<close> and \<^verbatim>\<open>null\<close>.\<close>

theorem missing_identifier_skips_witness:
  "HandleRequest defaultHandler (testProcess ''planet-express'' tagsJSON) \<lparr>Detail = ''{}''\<rparr>
     = (Returns None, [])
   \<and> HandleRequest defaultHandler (testProcess ''planet-express'' tagsJSON)
       (detailWith ''SourceType'' ''DB_INSTANCE'') = (Returns None, [])
   \<and> HandleRequest defaultHandler (testProcess ''planet-express'' tagsJSON) \<lparr>Detail = ''null''\<rparr>
     = (Returns None, [])"
proof -
  let ?p = "testProcess ''planet-express'' tagsJSON"
  have cluster: "Getenv ?p ''RDS_CLUSTER_IDENTIFIER'' \<noteq> []" by code_simp
  have tags: "snd (UnmarshalMap (Getenv ?p ''TAGS'')) = None" by code_simp
  have v1: "checkValid (Detail \<lparr>Detail = ''{}''\<rparr>) = Some (JObject [])" by code_simp
  have v2: "checkValid (Detail (detailWith ''SourceType'' ''DB_INSTANCE''))
              = Some (JObject [(''SourceType'', JString ''DB_INSTANCE'')])" by code_simp
  have v3: "checkValid (Detail \<lparr>Detail = ''null''\<rparr>) = Some JNull" by code_simp
  have k2: "\<not> fieldMatches ''SourceIdentifier'' ''SourceType''" by code_simp
  have d1: "checkValid (Detail \<lparr>Detail = ''{}''\<rparr>) = Some JNull
      \<or> (\<exists>kvs. checkValid (Detail \<lparr>Detail = ''{}''\<rparr>) = Some (JObject kvs)
            \<and> (\<forall>key \<in> fst ` set kvs. \<not> fieldMatches ''SourceIdentifier'' key))"
    using v1 by simp
  have d2: "checkValid (Detail (detailWith ''SourceType'' ''DB_INSTANCE'')) = Some JNull
      \<or> (\<exists>kvs. checkValid (Detail (detailWith ''SourceType'' ''DB_INSTANCE'')) = Some (JObject kvs)
            \<and> (\<forall>key \<in> fst ` set kvs. \<not> fieldMatches ''SourceIdentifier'' key))"
    using v2 k2 by simp
  have d3: "checkValid (Detail \<lparr>Detail = ''null''\<rparr>) = Some JNull
      \<or> (\<exists>kvs. checkValid (Detail \<lparr>Detail = ''null''\<rparr>) = Some (JObject kvs)
            \<and> (\<forall>key \<in> fst ` set kvs. \<not> fieldMatches ''SourceIdentifier'' key))"
    using v3 by simp
  from missing_identifier_skips [OF cluster tags d1, of defaultHandler]
       missing_identifier_skips [OF cluster tags d2, of defaultHandler]
       missing_identifier_skips [OF cluster tags d3, of defaultHandler]
  show ?thesis by simp
qed

text \<open>
  The claim as stated covers every valid JSON detail without a \<^verbatim>\<open>SourceIdentifier\<close>
  field. The detail \<^verbatim>\<open>[]\<close> is valid JSON and has no such field, and unmarshalling it into
  the struct is an error that the handler returns. The detail
  \<^verbatim>\<open>{"sourceidentifier":"application-autoscaling-fry"}\<close> has no key \<^verbatim>\<open>SourceIdentifier\<close>
  either, yet the decoder stores its value in the field and the instance is tagged.
\<close>

theorem missing_identifier_counterexample:
  "checkValid ''[]'' = Some (JArray [])
   \<and> HandleRequest defaultHandler (testProcess ''planet-express'' tagsJSON) \<lparr>Detail = ''[]''\<rparr>
       = (Returns (Some (JsonError (UnmarshalTypeError ''array''))), [])
   \<and> checkValid (Detail (detailWith ''sourceidentifier'' ''application-autoscaling-fry''))
       = Some (JObject [(''sourceidentifier'', JString ''application-autoscaling-fry'')])
   \<and> HandleRequest defaultHandler (testProcess ''planet-express'' tagsJSON)
         (detailWith ''sourceidentifier'' ''application-autoscaling-fry'')
       = (Returns None,
          [CallDescribeDBInstances ''application-autoscaling-fry'', CallGetCallerIdentity,
           CallAddTagsToResource
             \<lparr>ResourceName = ''arn:aws:rds:us-east-1:123456789012:db:application-autoscaling-fry'',
              Tags = [\<lparr>Key = ''Owner'', Value = ''professor-farnsworth''\<rparr>,
                      \<lparr>Key = ''Purpose'', Value = ''delivery-company''\<rparr>]\<rparr>])"
  by code_simp

text \<open>
  Claim C10 (empty tag configuration). When \<^verbatim>\<open>TAGS\<close> is the JSON \<^verbatim>\<open>null\<close>, or any text
  that is valid JSON for the empty object, the configuration is accepted (the tag map is
  empty and there is no error), and on the success path \<^verbatim>\<open>AddTagsToResource\<close> is called
  with the empty tag list.
\<close>

theorem empty_tags_accepted:
  assumes cluster: "Getenv p ''RDS_CLUSTER_IDENTIFIER'' \<noteq> []"
    and empty: "checkValid (Getenv p ''TAGS'') = Some JNull
                \<or> checkValid (Getenv p ''TAGS'') = Some (JObject [])"
  shows "UnmarshalMap (Getenv p ''TAGS'') = ([], None)
       \<and> (UnmarshalEventDetail (Detail event) = (detail, None) \<longrightarrow>
          sublist ''application-autoscaling-'' (SourceIdentifier detail) \<longrightarrow>
          fst (getClusterIdentifier h (SourceIdentifier detail))
            = Returns (Getenv p ''RDS_CLUSTER_IDENTIFIER'', None) \<longrightarrow>
          GetCallerIdentity (sts h) = (Some \<lparr>Account = Some accountId\<rparr>, None) \<longrightarrow>
          HandleRequest h p event
            = (Returns (map_option AwsError
                 (AddTagsToResource (rds h)
                    \<lparr>ResourceName = ''arn:aws:rds:us-east-1:'' @ accountId @ '':db:''
                                      @ SourceIdentifier detail,
                     Tags = []\<rparr>)),
               [CallDescribeDBInstances (SourceIdentifier detail), CallGetCallerIdentity,
                CallAddTagsToResource
                  \<lparr>ResourceName = ''arn:aws:rds:us-east-1:'' @ accountId @ '':db:''
                                    @ SourceIdentifier detail,
                   Tags = []\<rparr>]))"
proof -
  let ?id = "SourceIdentifier detail"
  have tags: "UnmarshalMap (Getenv p ''TAGS'') = ([], None)"
    using empty by (auto simp: UnmarshalMap_def)
  have run: "HandleRequest h p event
      = (Returns (map_option AwsError
           (AddTagsToResource (rds h)
              \<lparr>ResourceName = ''arn:aws:rds:us-east-1:'' @ accountId @ '':db:'' @ ?id,
               Tags = []\<rparr>)),
         [CallDescribeDBInstances ?id, CallGetCallerIdentity,
          CallAddTagsToResource
            \<lparr>ResourceName = ''arn:aws:rds:us-east-1:'' @ accountId @ '':db:'' @ ?id,
             Tags = []\<rparr>])"
    if event: "UnmarshalEventDetail (Detail event) = (detail, None)"
      and name: "sublist ''application-autoscaling-'' ?id"
      and member: "fst (getClusterIdentifier h ?id)
                     = Returns (Getenv p ''RDS_CLUSTER_IDENTIFIER'', None)"
      and identity: "GetCallerIdentity (sts h) = (Some \<lparr>Account = Some accountId\<rparr>, None)"
  proof -
    have contains: "Contains ?id ''application-autoscaling-''"
      using name by (simp add: Contains_iff_sublist)
    have resolved: "getClusterIdentifier h ?id
        = (Returns (Getenv p ''RDS_CLUSTER_IDENTIFIER'', None), [CallDescribeDBInstances ?id])"
      using member getClusterIdentifier_calls [of h ?id]
      by (cases "getClusterIdentifier h ?id") simp
    show ?thesis
      using cluster tags event contains resolved identity
      by (simp add: HandleRequest_def Let_def split: option.splits)
  qed
  from tags run show ?thesis by blast
qed

text \<open>The happy path with \<^verbatim>\<open>TAGS=null\<close> and with \<^verbatim>\<open>TAGS\<close> an empty object in spaces.\<close>

theorem empty_tags_accepted_witness:
  "checkValid ''null'' = Some JNull
   \<and> UnmarshalMap ''null'' = ([], None)
   \<and> HandleRequest defaultHandler (testProcess ''planet-express'' ''null'')
        (detailFor ''application-autoscaling-fry'')
       = (Returns None,
          [CallDescribeDBInstances ''application-autoscaling-fry'', CallGetCallerIdentity,
           CallAddTagsToResource
             \<lparr>ResourceName = ''arn:aws:rds:us-east-1:123456789012:db:application-autoscaling-fry'',
              Tags = []\<rparr>])
   \<and> checkValid '' { } '' = Some (JObject [])
   \<and> HandleRequest defaultHandler (testProcess ''planet-express'' '' { } '')
        (detailFor ''application-autoscaling-fry'')
       = (Returns None,
          [CallDescribeDBInstances ''application-autoscaling-fry'', CallGetCallerIdentity,
           CallAddTagsToResource
             \<lparr>ResourceName = ''arn:aws:rds:us-east-1:123456789012:db:application-autoscaling-fry'',
              Tags = []\<rparr>])"
proof -
  let ?p1 = "testProcess ''planet-express'' ''null''"
  let ?p2 = "testProcess ''planet-express'' '' { } ''"
  let ?d = "\<lparr>SourceIdentifier = ''application-autoscaling-fry''\<rparr>"
  have t1: "Getenv ?p1 ''TAGS'' = ''null''" by code_simp
  have t2: "Getenv ?p2 ''TAGS'' = '' { } ''" by code_simp
  have v1: "checkValid ''null'' = Some JNull" by code_simp
  have v2: "checkValid '' { } '' = Some (JObject [])" by code_simp
  have c1: "Getenv ?p1 ''RDS_CLUSTER_IDENTIFIER'' \<noteq> []" by code_simp
  have c2: "Getenv ?p2 ''RDS_CLUSTER_IDENTIFIER'' \<noteq> []" by code_simp
  have x1: "Getenv ?p1 ''RDS_CLUSTER_IDENTIFIER'' = ''planet-express''" by code_simp
  have x2: "Getenv ?p2 ''RDS_CLUSTER_IDENTIFIER'' = ''planet-express''" by code_simp
  have e1: "checkValid (Getenv ?p1 ''TAGS'') = Some JNull
            \<or> checkValid (Getenv ?p1 ''TAGS'') = Some (JObject [])"
    unfolding t1 using v1 by simp
  have e2: "checkValid (Getenv ?p2 ''TAGS'') = Some JNull
            \<or> checkValid (Getenv ?p2 ''TAGS'') = Some (JObject [])"
    unfolding t2 using v2 by simp
  have event: "UnmarshalEventDetail (Detail (detailFor ''application-autoscaling-fry'')) = (?d, None)"
    by code_simp
  have "Contains ''application-autoscaling-fry'' ''application-autoscaling-''" by code_simp
  then have name: "sublist ''application-autoscaling-'' (SourceIdentifier ?d)"
    by (simp add: Contains_iff_sublist)
  have member: "fst (getClusterIdentifier defaultHandler (SourceIdentifier ?d))
      = Returns (''planet-express'', None)"
    by code_simp
  have identity: "GetCallerIdentity (sts defaultHandler)
      = (Some \<lparr>Account = Some ''123456789012''\<rparr>, None)"
    by (simp add: defaultHandler_def defaultMockSTS_def)
  have accepts: "AddTagsToResource (rds defaultHandler) input = None" for input
    by (simp add: defaultHandler_def defaultMockRDS_def)
  from empty_tags_accepted [OF c1 e1, of "detailFor ''application-autoscaling-fry''" ?d
         defaultHandler "''123456789012''"]
       empty_tags_accepted [OF c2 e2, of "detailFor ''application-autoscaling-fry''" ?d
         defaultHandler "''123456789012''"]
       event name member identity accepts v1 v2 t1 t2 x1 x2
  show ?thesis by simp
qed

end
